theory Spec2Isabelle
  imports Main "HOL-Library.Sublist"
begin

section \<open>pyhkp: the HKP keyserver front end (src/pyhkp.py)\<close>

text \<open>
  The module is Python 2 (\<^verbatim>\<open>except UnicodeEncodeError, msg:\<close>). Request values are
  \<^verbatim>\<open>unicode\<close> strings; a string is modelled as a \<open>string\<close>, one \<open>char\<close> per code
  point, which covers the code points up to U+00FF. Every exception the source can raise
  is a value of \<open>error\<close>; a function that can raise returns \<open>error + 'a\<close>.
\<close>

subsection \<open>Python strings\<close>

datatype error =
    TypeError
  | UnicodeEncodeError
  | BadRequestKeyError string
  | GpgmeError string

definition is_ascii :: "char \<Rightarrow> bool" where
  "is_ascii c = ((of_char c :: nat) < 128)"

definition is_lower_az :: "char \<Rightarrow> bool" where
  "is_lower_az c = (97 \<le> (of_char c :: nat) \<and> (of_char c :: nat) \<le> 122)"

definition is_upper_az :: "char \<Rightarrow> bool" where
  "is_upper_az c = (65 \<le> (of_char c :: nat) \<and> (of_char c :: nat) \<le> 90)"

text \<open>
  \<^verbatim>\<open>s.upper()\<close> and \<^verbatim>\<open>s.lower()\<close>, character by character. On ASCII they move
  \<open>a\<close>-\<open>z\<close> and \<open>A\<close>-\<open>Z\<close> by 32. A code point in U+0080..U+00FF is mapped by Python to
  a code point that is again not ASCII; the model leaves it in place, since the code only
  ever compares such a character with ASCII text or rejects it in \<open>py_str\<close>.
\<close>

definition upper_char :: "char \<Rightarrow> char" where
  "upper_char c = (if is_lower_az c then char_of ((of_char c :: nat) - 32) else c)"

definition lower_char :: "char \<Rightarrow> char" where
  "lower_char c = (if is_upper_az c then char_of ((of_char c :: nat) + 32) else c)"

definition upper :: "string \<Rightarrow> string" where
  "upper s = map upper_char s"

definition lower :: "string \<Rightarrow> string" where
  "lower s = map lower_char s"

text \<open>
  \<^verbatim>\<open>str(u)\<close> of a \<^verbatim>\<open>unicode\<close> value encodes with the ASCII codec and raises
  \<^verbatim>\<open>UnicodeEncodeError\<close> when a character is not ASCII.
\<close>

definition py_str :: "string \<Rightarrow> error + string" where
  "py_str u = (if list_all is_ascii u then Inr u else Inl UnicodeEncodeError)"

text \<open>
  The text of that exception, for the string \<open>u\<close> that could not be encoded. It names the
  first run of characters that are not ASCII: one character by its escape and position, a
  longer run by its first and last position.
\<close>

definition digit_char :: "nat \<Rightarrow> char" where
  "digit_char d = (if d < 10 then char_of (48 + d) else char_of (87 + d))"

fun decimal :: "nat \<Rightarrow> string" where
  "decimal n = (if n < 10 then [digit_char n] else decimal (n div 10) @ [digit_char (n mod 10)])"

definition hex2 :: "char \<Rightarrow> string" where
  "hex2 c = [digit_char ((of_char c :: nat) div 16), digit_char ((of_char c :: nat) mod 16)]"

definition ascii_codec_message :: "string \<Rightarrow> string" where
  "ascii_codec_message u =
     (let start = length (takeWhile is_ascii u);
          run = takeWhile (\<lambda>c. \<not> is_ascii c) (drop start u);
          codec = [CHR 0x27] @ ''ascii'' @ [CHR 0x27] @ '' codec can'' @ [CHR 0x27] @ ''t encode ''
      in if length run = 1
         then codec @ ''character u'' @ [CHR 0x27, CHR 0x5C] @ ''x'' @ hex2 (hd run) @ [CHR 0x27]
              @ '' in position '' @ decimal start @ '': ordinal not in range(128)''
         else codec @ ''characters in position '' @ decimal start
              @ ''-'' @ decimal (start + length run - 1) @ '': ordinal not in range(128)'')"

text \<open>\<^verbatim>\<open>sub in s\<close>: \<open>sub\<close> occurs in \<open>s\<close> as a contiguous run of characters.\<close>

fun py_in :: "string \<Rightarrow> string \<Rightarrow> bool" where
  "py_in sub [] = (sub = [])"
| "py_in sub (c # cs) = (if prefix sub (c # cs) then True else py_in sub cs)"

text \<open>\<^verbatim>\<open>sep.join(xs)\<close>.\<close>

fun join :: "string \<Rightarrow> string list \<Rightarrow> string" where
  "join sep [] = []"
| "join sep [x] = x"
| "join sep (x # y # ys) = x @ sep @ join sep (y # ys)"

subsection \<open>Cleaning the request parameters\<close>

text \<open>
  \<^verbatim>\<open>search_re = re.compile("^0x", re.IGNORECASE)\<close>; \<^verbatim>\<open>search_re.sub('', s)\<close>.
  Without \<^verbatim>\<open>re.MULTILINE\<close> the anchor matches at position 0 only, so at most one
  occurrence, the one that starts the string, is replaced.
\<close>

fun search_re_sub :: "string \<Rightarrow> string" where
  "search_re_sub (c0 # c1 # rest) =
     (if c0 = CHR ''0'' \<and> (c1 = CHR ''x'' \<or> c1 = CHR ''X'') then rest else c0 # c1 # rest)"
| "search_re_sub s = s"

text \<open>\<^verbatim>\<open>def clean_search(s): return str(search_re.sub('', s).upper())\<close>\<close>

definition clean_search :: "string \<Rightarrow> error + string" where
  "clean_search s = py_str (upper (search_re_sub s))"

text \<open>
  \<^verbatim>\<open>op_re = re.compile("[^a-z]")\<close>; \<^verbatim>\<open>op_re.sub('', s)\<close> deletes every character
  that is not one of \<open>a\<close>-\<open>z\<close>.
\<close>

definition op_re_sub :: "string \<Rightarrow> string" where
  "op_re_sub s = filter is_lower_az s"

text \<open>
  \<^verbatim>\<open>def clean_op(s): return op_re.sub('', s).lower()\<close>. The caller passes what
  \<^verbatim>\<open>args.get('op', None)\<close> returned; on \<^verbatim>\<open>None\<close> the regular expression raises
  \<^verbatim>\<open>TypeError\<close>.
\<close>

definition clean_op :: "string option \<Rightarrow> error + string" where
  "clean_op s = (case s of None \<Rightarrow> Inl TypeError | Some raw \<Rightarrow> Inr (lower (op_re_sub raw)))"

subsection \<open>Flask: requests and responses\<close>

text \<open>
  \<^verbatim>\<open>flask.request.args\<close> and \<^verbatim>\<open>flask.request.form\<close> map a parameter name to its value.
  \<^verbatim>\<open>flask.make_response(body, status)\<close> builds a response whose mimetype is Flask's
  default, \<^verbatim>\<open>text/html\<close>, until the handler assigns another.
\<close>

record request =
  args :: "string \<rightharpoonup> string"
  form :: "string \<rightharpoonup> string"

record response =
  status_code :: nat
  data :: string
  mimetype :: string

definition make_response :: "string \<Rightarrow> nat \<Rightarrow> response" where
  "make_response body status = \<lparr>status_code = status, data = body, mimetype = ''text/html''\<rparr>"

subsection \<open>The key store: the gpgme context\<close>

text \<open>
  \<^verbatim>\<open>ctx = gpgme.Context()\<close> is the external key store. A key has \<^verbatim>\<open>uids\<close>, each with
  its text \<^verbatim>\<open>uid\<close>, and \<^verbatim>\<open>subkeys\<close>, each with its fingerprint \<^verbatim>\<open>fpr\<close>. An import
  result has the count \<^verbatim>\<open>imported\<close> and the list \<^verbatim>\<open>imports\<close> of triples whose first
  component is the key's identifier (the other two, which the code ignores, are numbers
  here). Each operation of the store either returns or raises \<^verbatim>\<open>gpgme.GpgmeError\<close>
  with a message (\<open>Inl\<close> the message).
\<close>

record user_id =
  uid :: string

record subkey =
  fpr :: string

record key =
  uids :: "user_id list"
  subkeys :: "subkey list"

record import_result =
  imported :: int
  import_list :: "(string \<times> nat \<times> nat) list"

record gpgme_context =
  ctx_get_key :: "string \<Rightarrow> string + key option"
  ctx_export :: "string \<Rightarrow> string + string"
  ctx_keylist :: "string + key list"
  ctx_import :: "string \<Rightarrow> string + import_result option"

text \<open>
  A handler's outcome is the response it returns, or the exception it lets escape, together
  with the calls it made to the store, in order.
\<close>

datatype store_call = GetKey string | Export string | Keylist | Import string

type_synonym outcome = "(error + response) \<times> store_call list"

subsection \<open>The lookup operations\<close>

text \<open>
  \<^verbatim>\<open>keydata = BytesIO()\<close> followed by \<^verbatim>\<open>if keydata:\<close> tests the buffer object, not
  what was written to it. A \<^verbatim>\<open>BytesIO\<close> defines neither \<^verbatim>\<open>__len__\<close> nor
  \<^verbatim>\<open>__nonzero__\<close>, so the test holds whatever the content.
\<close>

definition bytesio_truth :: "string \<Rightarrow> bool" where
  "bytesio_truth content = True"

text \<open>\<^verbatim>\<open>LookupOpHandler.get\<close>\<close>

definition get :: "request \<Rightarrow> gpgme_context \<Rightarrow> outcome" where
  "get rq ctx =
     (case args rq ''search'' of
        None \<Rightarrow> (Inr (make_response ''Missing required search parameter'' 500), [])
      | Some raw \<Rightarrow>
          (case clean_search raw of
             Inl e \<Rightarrow> (Inl e, [])
           | Inr search \<Rightarrow>
               (let match = (case ctx_get_key ctx search of Inl msg \<Rightarrow> None | Inr m \<Rightarrow> m) in
                if match = None
                then (Inr (make_response (''No key matching search='' @ search) 404),
                      [GetKey search])
                else
                  (case ctx_export ctx search of
                     Inl msg \<Rightarrow> (Inl (GpgmeError msg), [GetKey search, Export search])
                   | Inr keydata \<Rightarrow>
                       if bytesio_truth keydata
                       then (Inr ((make_response keydata 200)\<lparr>mimetype := ''text/plain''\<rparr>),
                             [GetKey search, Export search])
                       else (Inr (make_response (''No key matching search='' @ search) 404),
                             [GetKey search, Export search])))))"

text \<open>
  The loops of \<^verbatim>\<open>LookupOpHandler.index\<close>. The inner loop over \<^verbatim>\<open>k.uids\<close> sets
  \<^verbatim>\<open>match_uid\<close> and breaks at the first uid whose uppercased text contains the search
  term; the loop over \<^verbatim>\<open>k.subkeys\<close> appends to \<^verbatim>\<open>matches\<close>; the outer loop runs
  over \<^verbatim>\<open>ctx.keylist()\<close>.
\<close>

fun uid_loop :: "string \<Rightarrow> user_id list \<Rightarrow> bool" where
  "uid_loop search [] = False"
| "uid_loop search (u # us) = (if py_in search (upper (uid u)) then True else uid_loop search us)"

fun subkey_loop :: "string \<Rightarrow> bool \<Rightarrow> subkey list \<Rightarrow> string list \<Rightarrow> string list" where
  "subkey_loop search match_uid [] matches = matches"
| "subkey_loop search match_uid (sk # sks) matches =
     subkey_loop search match_uid sks
       (if match_uid \<or> py_in search (fpr sk) then matches @ [fpr sk] else matches)"

fun keylist_loop :: "string \<Rightarrow> key list \<Rightarrow> string list \<Rightarrow> string list" where
  "keylist_loop search [] matches = matches"
| "keylist_loop search (k # ks) matches =
     keylist_loop search ks (subkey_loop search (uid_loop search (uids k)) (subkeys k) matches)"

text \<open>\<^verbatim>\<open>LookupOpHandler.index\<close>\<close>

definition index :: "request \<Rightarrow> gpgme_context \<Rightarrow> outcome" where
  "index rq ctx =
     (case args rq ''search'' of
        None \<Rightarrow> (Inr (make_response ''Missing required argument: search'' 400), [])
      | Some raw \<Rightarrow>
          (case clean_search raw of
             Inl e \<Rightarrow> (Inl e, [])
           | Inr search \<Rightarrow>
               if length search < 4
               then (Inr (make_response ''Search must be at least four characters'' 500), [])
               else
                 (case ctx_keylist ctx of
                    Inl msg \<Rightarrow> (Inl (GpgmeError msg), [Keylist])
                  | Inr ks \<Rightarrow>
                      (let matches = keylist_loop search ks [] in
                       if matches \<noteq> []
                       then (Inr ((make_response (join [CHR 0x0A] matches) 200)
                                    \<lparr>mimetype := ''text/plain''\<rparr>), [Keylist])
                       else (Inr (make_response
                                    (''No keys matching search request: '' @ search) 404),
                             [Keylist])))))"

text \<open>\<^verbatim>\<open>LookupOpHandler.vindex\<close>\<close>

definition vindex :: "request \<Rightarrow> gpgme_context \<Rightarrow> outcome" where
  "vindex rq ctx = (Inr (make_response ''VIndex search not supported by this server.'' 501), [])"

subsection \<open>Dispatch: the route /pks/lookup\<close>

text \<open>
  \<^verbatim>\<open>class LookupOpHandler:\<close> is an old-style class: it has no base class and no
  metaclass whose attributes it would show. \<^verbatim>\<open>getattr\<close> on it finds the three static
  methods, the docstring \<^verbatim>\<open>__doc__\<close>, \<^verbatim>\<open>__module__\<close> and the special attributes
  \<^verbatim>\<open>__name__\<close>, \<^verbatim>\<open>__bases__\<close> and \<^verbatim>\<open>__dict__\<close> of every class object.
\<close>

datatype lookup_op = Get | Index | Vindex

datatype attr = StaticMethod lookup_op | Str string | Tuple "attr list" | Dict

definition LookupOpHandler :: "(string \<times> attr) list" where
  "LookupOpHandler =
     [(''__doc__'', Str ([CHR 0x0A, CHR 0x09] @ ''Operations supported by the /pks/lookup endpoint.''
                        @ [CHR 0x0A, CHR 0x09])),
      (''__module__'', Str ''pyhkp''),
      (''get'', StaticMethod Get),
      (''index'', StaticMethod Index),
      (''vindex'', StaticMethod Vindex),
      (''__name__'', Str ''LookupOpHandler''),
      (''__bases__'', Tuple []),
      (''__dict__'', Dict)]"

text \<open>\<^verbatim>\<open>getattr(cls, name, None)\<close>\<close>

definition getattr :: "(string \<times> attr) list \<Rightarrow> string \<Rightarrow> attr option" where
  "getattr cls name = map_of cls name"

text \<open>
  \<^verbatim>\<open>if handler:\<close>: \<^verbatim>\<open>None\<close>, the empty string and the empty tuple are false; a
  function and the class dictionary (which is never empty) are true.
\<close>

fun truth :: "attr option \<Rightarrow> bool" where
  "truth None = False"
| "truth (Some (StaticMethod h)) = True"
| "truth (Some (Str s)) = (s \<noteq> [])"
| "truth (Some (Tuple xs)) = (xs \<noteq> [])"
| "truth (Some Dict) = True"

text \<open>\<^verbatim>\<open>handler()\<close>: only a function can be called; calling anything else raises.\<close>

fun call :: "attr option \<Rightarrow> request \<Rightarrow> gpgme_context \<Rightarrow> outcome" where
  "call (Some (StaticMethod Get)) rq ctx = get rq ctx"
| "call (Some (StaticMethod Index)) rq ctx = index rq ctx"
| "call (Some (StaticMethod Vindex)) rq ctx = vindex rq ctx"
| "call other rq ctx = (Inl TypeError, [])"

text \<open>\<^verbatim>\<open>def lookup()\<close>\<close>

definition lookup :: "request \<Rightarrow> gpgme_context \<Rightarrow> outcome" where
  "lookup rq ctx =
     (case clean_op (args rq ''op'') of
        Inl e \<Rightarrow> (Inl e, [])
      | Inr op \<Rightarrow>
          if op \<noteq> []
          then (let handler = getattr LookupOpHandler op in
                if truth handler then call handler rq ctx
                else (Inr (make_response (''Operation not supported: '' @ op) 501), []))
          else (Inr (make_response ''Missing required argument: op'' 400), []))"

subsection \<open>Submission: the route /pks/add\<close>

text \<open>
  \<^verbatim>\<open>def add()\<close>. \<^verbatim>\<open>flask.request.form['keytext']\<close> raises when the field is missing.
  \<^verbatim>\<open>if result:\<close> holds for every result object and fails for \<^verbatim>\<open>None\<close>;
  \<^verbatim>\<open>if result.imported:\<close> holds when the count is not zero.
\<close>

definition add :: "request \<Rightarrow> gpgme_context \<Rightarrow> outcome" where
  "add rq ctx =
     (case form rq ''keytext'' of
        None \<Rightarrow> (Inl (BadRequestKeyError ''keytext''), [])
      | Some keytext \<Rightarrow>
          (case py_str keytext of
             Inl UnicodeEncodeError \<Rightarrow>
               (Inr (make_response
                       (''Invalid characters in request: '' @ ascii_codec_message keytext) 400),
                [])
           | Inl e \<Rightarrow> (Inl e, [])
           | Inr keydata \<Rightarrow>
               (case ctx_import ctx keydata of
                  Inl msg \<Rightarrow> (Inr (make_response (''GPGME: '' @ msg) 403), [Import keydata])
                | Inr None \<Rightarrow>
                    (Inr (make_response ''No keys were imported due to an unknown error'' 404),
                     [Import keydata])
                | Inr (Some result) \<Rightarrow>
                    (let resp_code = 200;
                         resp_code = (if imported result \<noteq> 0 then 201 else resp_code)
                     in (Inr (make_response
                                (''Keys imported:'' @ [CHR 0x0A]
                                 @ join [CHR 0x0A] (map (\<lambda>(k, _, _). k) (import_list result)))
                                resp_code),
                         [Import keydata])))))"

subsection \<open>The specification's notion of a matching key\<close>

text \<open>
  The specification of \<^verbatim>\<open>index\<close> calls a key a match when some uid, uppercased, contains
  the search term or some subkey fingerprint contains it. This predicate follows those
  words; the code has no such function.
\<close>

definition spec_key_matches :: "string \<Rightarrow> key \<Rightarrow> bool" where
  "spec_key_matches search k =
     (list_ex (\<lambda>u. py_in search (upper (uid u))) (uids k) \<or>
      list_ex (\<lambda>sk. py_in search (fpr sk)) (subkeys k))"

subsection \<open>Requests and stores for the examples\<close>

text \<open>
  A GET request with the given query parameters, a POST request with the given form
  fields, and a store that holds the keys \<open>ks\<close>: it finds a key by the exact fingerprint
  of one of its subkeys, writes \<open>armored\<close> on export and answers an import with \<open>res\<close>.
\<close>

definition get_request :: "(string \<times> string) list \<Rightarrow> request" where
  "get_request params = \<lparr>args = map_of params, form = Map.empty\<rparr>"

definition post_request :: "(string \<times> string) list \<Rightarrow> request" where
  "post_request params = \<lparr>args = Map.empty, form = map_of params\<rparr>"

definition store_with :: "key list \<Rightarrow> string \<Rightarrow> import_result option \<Rightarrow> gpgme_context" where
  "store_with ks armored res =
     \<lparr>ctx_get_key = (\<lambda>s. case find (\<lambda>k. list_ex (\<lambda>sk. fpr sk = s) (subkeys k)) ks of
                             None \<Rightarrow> Inl ''Not found''
                           | Some k \<Rightarrow> Inr (Some k)),
      ctx_export = (\<lambda>s. Inr armored),
      ctx_keylist = Inr ks,
      ctx_import = (\<lambda>text. Inr res)\<rparr>"

definition make_key :: "string list \<Rightarrow> string list \<Rightarrow> key" where
  "make_key us fs = \<lparr>uids = map (\<lambda>u. \<lparr>uid = u\<rparr>) us, subkeys = map (\<lambda>f. \<lparr>fpr = f\<rparr>) fs\<rparr>"

section \<open>Properties\<close>

subsection \<open>Characters and strings\<close>

lemma of_char_upper_char:
  "(of_char (upper_char c) :: nat) = (if is_lower_az c then of_char c - 32 else of_char c)"
  by (auto simp: upper_char_def is_lower_az_def)

lemma upper_char_not_lower: "\<not> is_lower_az (upper_char c)"
  unfolding is_lower_az_def of_char_upper_char by (simp add: is_lower_az_def) arith

lemma upper_char_idem: "upper_char (upper_char c) = upper_char c"
  using upper_char_not_lower [of c] by (simp add: upper_char_def [of "upper_char c"])

lemma upper_char_ascii: "is_ascii (upper_char c) = is_ascii c"
  by (auto simp: is_ascii_def of_char_upper_char is_lower_az_def)

lemma upper_idem: "upper (upper s) = upper s"
  by (simp add: upper_def upper_char_idem)

lemma upper_ascii: "list_all is_ascii (upper s) = list_all is_ascii s"
  by (induction s) (simp_all add: upper_def upper_char_ascii)

lemma upper_char_not_x: "upper_char c \<noteq> CHR ''x''"
proof
  assume "upper_char c = CHR ''x''"
  then have "is_lower_az (upper_char c)" by (simp add: is_lower_az_def)
  then show False by (simp add: upper_char_not_lower)
qed

lemma lower_char_lower_az: "is_lower_az c \<Longrightarrow> lower_char c = c"
  by (simp add: lower_char_def is_lower_az_def is_upper_az_def)

lemma lower_op_re_sub: "lower (op_re_sub raw) = op_re_sub raw"
  by (induction raw) (simp_all add: lower_def op_re_sub_def lower_char_lower_az)

lemma clean_op_Some: "clean_op (Some raw) = Inr (op_re_sub raw)"
  by (simp add: clean_op_def lower_op_re_sub)

lemma op_re_sub_az: "list_all is_lower_az (op_re_sub raw)"
  by (simp add: op_re_sub_def list_all_iff)

subsection \<open>The loops of index in closed form\<close>

lemma py_in_sublist: "py_in sub s = sublist sub s"
  by (induction s) (auto simp: sublist_Cons_right)

lemma uid_loop_ex: "uid_loop search us = list_ex (\<lambda>u. py_in search (upper (uid u))) us"
  by (induction us) simp_all

lemma subkey_loop_eq:
  "subkey_loop search m sks matches =
     matches @ (if m then map fpr sks else filter (py_in search) (map fpr sks))"
  by (induction sks arbitrary: matches) simp_all

lemma keylist_loop_eq:
  "keylist_loop search ks matches =
     matches @ concat (map (\<lambda>k. if uid_loop search (uids k) then map fpr (subkeys k)
                                 else filter (py_in search) (map fpr (subkeys k))) ks)"
  by (induction ks arbitrary: matches) (simp_all add: subkey_loop_eq)

subsection \<open>Attribute lookup on the handler class\<close>

lemma az_no_underscore: "list_all is_lower_az name \<Longrightarrow> CHR ''_'' \<notin> set name"
  by (auto simp: list_all_iff is_lower_az_def)

lemma getattr_az:
  assumes "list_all is_lower_az name"
  shows "getattr LookupOpHandler name =
     (if name = ''get'' then Some (StaticMethod Get)
      else if name = ''index'' then Some (StaticMethod Index)
      else if name = ''vindex'' then Some (StaticMethod Vindex)
      else None)"
proof -
  have u: "CHR ''_'' \<notin> set name"
    using assms by (rule az_no_underscore)
  have n: "name \<noteq> ''__doc__''" "name \<noteq> ''__module__''" "name \<noteq> ''__name__''"
       "name \<noteq> ''__bases__''" "name \<noteq> ''__dict__''"
    using u by fastforce+
  have d: "''get'' \<noteq> ''index''" "''get'' \<noteq> ''vindex''" "''index'' \<noteq> ''vindex''"
    by simp_all
  show ?thesis
    using n d by (simp add: getattr_def LookupOpHandler_def)
qed

subsection \<open>Search normalization\<close>

lemma search_re_sub_upper:
  "search_re_sub (upper s) = (if prefix ''0X'' (upper s) then drop 2 (upper s) else upper s)"
proof (cases s)
  case Nil
  then show ?thesis by (simp add: upper_def)
next
  case s: (Cons c0 s')
  show ?thesis
  proof (cases s')
    case Nil
    then show ?thesis using s by (simp add: upper_def)
  next
    case (Cons c1 rest)
    then show ?thesis
      using s upper_char_not_x [of c1] by (auto simp: upper_def)
  qed
qed

lemma clean_search_Inr:
  "clean_search s = Inr t \<Longrightarrow> t = upper (search_re_sub s) \<and> list_all is_ascii t"
  by (auto simp: clean_search_def py_str_def split: if_splits)




subsection \<open>The index handler\<close>

lemma index_found:
  assumes "args rq ''search'' = Some raw"
    and "clean_search raw = Inr t"
    and "\<not> length t < 4"
    and "ctx_keylist ctx = Inr ks"
  shows "index rq ctx =
           (if keylist_loop t ks [] \<noteq> []
            then (Inr \<lparr>status_code = 200, data = join [CHR 0x0A] (keylist_loop t ks []),
                       mimetype = ''text/plain''\<rparr>, [Keylist])
            else (Inr (make_response (''No keys matching search request: '' @ t) 404),
                  [Keylist]))"
  using assms by (simp add: index_def make_response_def Let_def)

lemma keylist_loop_nothing:
  assumes "\<forall>k\<in>set ks. spec_key_matches search k \<longrightarrow> subkeys k = []"
  shows "keylist_loop search ks matches = matches"
  using assms
proof (induction ks arbitrary: matches)
  case Nil
  then show ?case by simp
next
  case (Cons k ks)
  have "subkey_loop search (uid_loop search (uids k)) (subkeys k) matches = matches"
  proof (cases "spec_key_matches search k")
    case True
    with Cons.prems have "subkeys k = []" by simp
    then show ?thesis by simp
  next
    case False
    then have "\<not> uid_loop search (uids k)"
      and "filter (py_in search) (map fpr (subkeys k)) = []"
      by (auto simp: spec_key_matches_def uid_loop_ex list_ex_iff filter_empty_conv)
    then show ?thesis by (simp add: subkey_loop_eq)
  qed
  then show ?case using Cons by simp
qed

section \<open>The claims\<close>

subsection \<open>C1: operation names that are not get, index or vindex\<close>

text \<open>
  C1 as stated (every raw op whose cleaned form is not one of the three operation names is
  answered 501 "Operation not supported: ...") fails where the cleaned form is empty: the
  raw op \<^verbatim>\<open>123\<close> cleans to the empty string, \<^verbatim>\<open>if op:\<close> fails, and \<^verbatim>\<open>lookup\<close> answers
  400 "Missing required argument: op".
\<close>

theorem lookup_empty_op_is_400:
  "clean_op (Some ''123'') = Inr [] \<and>
   lookup (get_request [(''op'', ''123'')]) (store_with [] [] None) =
     (Inr (make_response ''Missing required argument: op'' 400), []) \<and>
   lookup (get_request [(''op'', ''123'')]) (store_with [] [] None) \<noteq>
     (Inr (make_response (''Operation not supported: '' @ []) 501), [])"
  by code_simp

text \<open>
  C1, amended: for every raw op string whose cleaned form \<open>op\<close> is not \<^verbatim>\<open>get\<close>,
  \<^verbatim>\<open>index\<close> or \<^verbatim>\<open>vindex\<close>, attribute lookup on the handler class finds nothing (so the
  cleaned name is never the name of a non-operation member and nothing is called), no call
  reaches the store, and \<^verbatim>\<open>lookup\<close> answers 501 "Operation not supported: op" when \<open>op\<close>
  is not empty and 400 "Missing required argument: op" when it is.
\<close>

theorem lookup_unsupported:
  assumes "args rq ''op'' = Some raw"
    and "clean_op (Some raw) = Inr op"
    and "op \<notin> {''get'', ''index'', ''vindex''}"
  shows "getattr LookupOpHandler op = None \<and>
         lookup rq ctx =
           (if op = [] then (Inr (make_response ''Missing required argument: op'' 400), [])
            else (Inr (make_response (''Operation not supported: '' @ op) 501), []))"
proof -
  from assms(2) have "op = op_re_sub raw" by (simp add: clean_op_Some)
  then have "list_all is_lower_az op" by (simp add: op_re_sub_az)
  then have g: "getattr LookupOpHandler op = None"
    using assms(3) by (simp add: getattr_az)
  show ?thesis
    using g assms(1,2) by (simp add: lookup_def)
qed

text \<open>
  C1, an instance: \<^verbatim>\<open>op=Bogus;\<close> cleans to \<^verbatim>\<open>ogus\<close> and is answered 501.
\<close>

theorem lookup_unsupported_witness:
  "getattr LookupOpHandler ''ogus'' = None \<and>
   lookup (get_request [(''op'', ''Bogus;'')]) (store_with [] [] None) =
     (Inr (make_response ''Operation not supported: ogus'' 501), [])"
proof -
  have a: "args (get_request [(''op'', ''Bogus;'')]) ''op'' = Some ''Bogus;''" by code_simp
  have c: "clean_op (Some ''Bogus;'') = Inr ''ogus''" by code_simp
  have n: "''ogus'' \<notin> {''get'', ''index'', ''vindex''}" by simp
  have g: "getattr LookupOpHandler ''ogus'' = None" by code_simp
  show ?thesis
    using g lookup_unsupported [OF a c n, of "store_with [] [] None"] by simp
qed

subsection \<open>C2: idempotence of search normalization\<close>

text \<open>
  C2 as stated (normalizing a normalized term always yields the same term) fails:
  \<^verbatim>\<open>clean_search\<close> removes one leading \<^verbatim>\<open>0x\<close> only, so \<^verbatim>\<open>0x0xab\<close> normalizes to
  \<^verbatim>\<open>0XAB\<close>, and normalizing that once more gives \<^verbatim>\<open>AB\<close>.
\<close>

theorem clean_search_not_idempotent:
  "clean_search ''0x0xab'' = Inr ''0XAB'' \<and> clean_search ''0XAB'' = Inr ''AB''
   \<and> clean_search ''0XAB'' \<noteq> clean_search ''0x0xab''"
  by code_simp

text \<open>
  C2, amended: when \<^verbatim>\<open>clean_search\<close> returns a term \<open>t\<close>, normalizing \<open>t\<close> again
  returns \<open>t\<close> exactly when \<open>t\<close> does not itself begin with \<^verbatim>\<open>0X\<close>.
\<close>

theorem clean_search_idempotent_iff:
  assumes "clean_search s = Inr t"
  shows "(clean_search t = Inr t) = (\<not> prefix ''0X'' t)"
proof -
  from assms have t: "t = upper (search_re_sub s)" and a: "list_all is_ascii t"
    using clean_search_Inr by blast+
  have ut: "upper t = t" by (simp add: t upper_idem)
  have sub: "search_re_sub t = (if prefix ''0X'' t then drop 2 t else t)"
    using search_re_sub_upper [of t] by (simp add: ut)
  show ?thesis
  proof (cases "prefix ''0X'' t")
    case True
    then have "length t \<ge> 2" by (auto simp: prefix_def)
    then have "length (upper (search_re_sub t)) \<noteq> length t"
      using True by (simp add: sub upper_def)
    then have "upper (search_re_sub t) \<noteq> t" by auto
    then show ?thesis using True by (auto simp: clean_search_def py_str_def)
  next
    case False
    then show ?thesis using a by (simp add: clean_search_def py_str_def sub ut)
  qed
qed

text \<open>
  C2, an instance: \<^verbatim>\<open>0XabCDef\<close> normalizes to \<^verbatim>\<open>ABCDEF\<close>, which normalizes to itself.
\<close>

theorem clean_search_idempotent_iff_witness:
  "clean_search ''0XabCDef'' = Inr ''ABCDEF'' \<and> clean_search ''ABCDEF'' = Inr ''ABCDEF''
   \<and> \<not> prefix ''0X'' ''ABCDEF''"
proof -
  have h: "clean_search ''0XabCDef'' = Inr ''ABCDEF''" by code_simp
  have p: "\<not> prefix ''0X'' ''ABCDEF''" by simp
  show ?thesis using h p clean_search_idempotent_iff [OF h] by simp
qed

subsection \<open>C3: cleaning the op Get!!\<close>

text \<open>
  C3 (the raw op \<^verbatim>\<open>Get!!\<close> is cleaned to \<^verbatim>\<open>get\<close> and reaches the get handler) does not
  hold of the code: \<^verbatim>\<open>op_re\<close> deletes the capital \<^verbatim>\<open>G\<close> before \<^verbatim>\<open>lower()\<close> can fold
  it, the cleaned name is \<^verbatim>\<open>et\<close>, and \<^verbatim>\<open>lookup\<close> answers 501 without calling a handler.
\<close>

theorem lookup_capitalised_get_is_501:
  "clean_op (Some ''Get!!'') = Inr ''et'' \<and>
   lookup (get_request [(''op'', ''Get!!''), (''search'', ''0xDEADBEEF'')]) ctx =
     (Inr (make_response ''Operation not supported: et'' 501), [])"
  by code_simp

subsection \<open>C4: get after a successful store lookup\<close>

text \<open>
  C4: after a successful store lookup, \<^verbatim>\<open>get\<close> answers 200 with content type
  \<^verbatim>\<open>text/plain\<close> and a body equal to what the export wrote, whatever that is. The
  other half of C4 (404 when the export wrote no bytes) does not hold of the code: the
  same 200 is the answer when nothing was written.
\<close>

theorem get_export_always_200:
  assumes "args rq ''search'' = Some raw"
    and "clean_search raw = Inr t"
    and "ctx_get_key ctx t = Inr (Some k)"
    and "ctx_export ctx t = Inr keydata"
  shows "get rq ctx =
           (Inr \<lparr>status_code = 200, data = keydata, mimetype = ''text/plain''\<rparr>,
            [GetKey t, Export t])"
  using assms by (simp add: get_def bytesio_truth_def make_response_def)

text \<open>
  C4, at the failing input: the store finds the key and the export writes no bytes; the
  answer is 200 with an empty body.
\<close>

theorem get_export_always_200_witness:
  "get (get_request [(''op'', ''get''), (''search'', ''0xDEADBEEF'')])
       (store_with [make_key [''alice''] [''DEADBEEF'']] [] None) =
     (Inr \<lparr>status_code = 200, data = [], mimetype = ''text/plain''\<rparr>,
      [GetKey ''DEADBEEF'', Export ''DEADBEEF''])"
proof -
  let ?rq = "get_request [(''op'', ''get''), (''search'', ''0xDEADBEEF'')]"
  let ?ctx = "store_with [make_key [''alice''] [''DEADBEEF'']] [] None"
  have a: "args ?rq ''search'' = Some ''0xDEADBEEF''" by code_simp
  have c: "clean_search ''0xDEADBEEF'' = Inr ''DEADBEEF''" by code_simp
  have g: "ctx_get_key ?ctx ''DEADBEEF'' = Inr (Some (make_key [''alice''] [''DEADBEEF'']))"
    by code_simp
  have e: "ctx_export ?ctx ''DEADBEEF'' = Inr []" by code_simp
  show ?thesis by (rule get_export_always_200 [OF a c g e])
qed

subsection \<open>C5: what index collects\<close>

text \<open>
  C5 as stated (every subkey fingerprint of every matching key is collected) fails for a
  key that matches through a fingerprint only: the key below matches the term
  \<^verbatim>\<open>AAAA\<close> by its first subkey, and its second fingerprint is not collected.
\<close>

theorem index_fingerprint_match_omits_other_subkeys:
  "spec_key_matches ''AAAA'' (make_key [''alice''] [''AAAA1111'', ''BBBB2222''])
   \<and> ''BBBB2222'' \<in> set (map fpr (subkeys (make_key [''alice''] [''AAAA1111'', ''BBBB2222''])))
   \<and> keylist_loop ''AAAA'' [make_key [''alice''] [''AAAA1111'', ''BBBB2222'']] [] = [''AAAA1111'']
   \<and> index (get_request [(''op'', ''index''), (''search'', ''aaaa'')])
         (store_with [make_key [''alice''] [''AAAA1111'', ''BBBB2222'']] [] None) =
       (Inr \<lparr>status_code = 200, data = ''AAAA1111'', mimetype = ''text/plain''\<rparr>, [Keylist])"
  by code_simp

text \<open>
  C5, amended: \<^verbatim>\<open>index\<close> collects, key by key in the store's enumeration order and
  without removing duplicates, every subkey fingerprint of a key one of whose uids,
  uppercased, contains the normalized term, and of any other key exactly the subkey
  fingerprints that contain the term. It answers 200 with the collected fingerprints
  joined by newlines when there are any, and 404 otherwise.
\<close>

theorem index_collects:
  assumes "args rq ''search'' = Some raw"
    and "clean_search raw = Inr t"
    and "\<not> length t < 4"
    and "ctx_keylist ctx = Inr ks"
    and "matches =
           concat (map (\<lambda>k. if list_ex (\<lambda>u. sublist t (upper (uid u))) (uids k)
                              then map fpr (subkeys k)
                              else filter (sublist t) (map fpr (subkeys k))) ks)"
  shows "index rq ctx =
           (if matches \<noteq> []
            then (Inr \<lparr>status_code = 200, data = join [CHR 0x0A] matches,
                       mimetype = ''text/plain''\<rparr>, [Keylist])
            else (Inr (make_response (''No keys matching search request: '' @ t) 404),
                  [Keylist]))"
proof -
  have p: "py_in t = sublist t"
    by (rule ext) (rule py_in_sublist)
  have "keylist_loop t ks [] = matches"
    unfolding keylist_loop_eq uid_loop_ex assms(5) p by simp
  then show ?thesis
    using index_found [OF assms(1-4)] by simp
qed

text \<open>
  C5, an instance: a key matched by uid gives both its fingerprints, a key matched by one
  fingerprint gives that one, a key that does not match gives none, and a fingerprint seen
  before is listed again.
\<close>

theorem index_collects_witness:
  "index (get_request [(''op'', ''index''), (''search'', ''test'')])
         (store_with [make_key [''Test User''] [''AAAA1111'', ''BBBB2222''],
                      make_key [''bob''] [''CCCC3333'', ''99TEST99''],
                      make_key [''carol''] [''DDDD4444''],
                      make_key [''tester''] [''AAAA1111'']] [] None) =
     (Inr \<lparr>status_code = 200,
           data = ''AAAA1111'' @ [CHR 0x0A] @ ''BBBB2222'' @ [CHR 0x0A] @ ''99TEST99''
                  @ [CHR 0x0A] @ ''AAAA1111'',
           mimetype = ''text/plain''\<rparr>, [Keylist])"
proof -
  let ?ks = "[make_key [''Test User''] [''AAAA1111'', ''BBBB2222''],
              make_key [''bob''] [''CCCC3333'', ''99TEST99''],
              make_key [''carol''] [''DDDD4444''],
              make_key [''tester''] [''AAAA1111'']]"
  let ?rq = "get_request [(''op'', ''index''), (''search'', ''test'')]"
  have a: "args ?rq ''search'' = Some ''test''" by code_simp
  have c: "clean_search ''test'' = Inr ''TEST''" by code_simp
  have l: "\<not> length ''TEST'' < 4" by simp
  have k: "ctx_keylist (store_with ?ks [] None) = Inr ?ks" by (simp add: store_with_def)
  have m: "concat (map (\<lambda>k. if list_ex (\<lambda>u. sublist ''TEST'' (upper (uid u))) (uids k)
                              then map fpr (subkeys k)
                              else filter (sublist ''TEST'') (map fpr (subkeys k))) ?ks)
           = [''AAAA1111'', ''BBBB2222'', ''99TEST99'', ''AAAA1111'']"
    by code_simp
  show ?thesis
    using index_collects [OF a c l k refl] unfolding m by simp
qed

subsection \<open>C6: lookup without an op parameter\<close>

text \<open>
  C6 (a request without \<^verbatim>\<open>op\<close> is answered 400 "Missing required argument: op") does
  not hold of the code: \<^verbatim>\<open>clean_op\<close> is applied to \<^verbatim>\<open>None\<close> first and raises
  \<^verbatim>\<open>TypeError\<close>, which \<^verbatim>\<open>lookup\<close> does not catch.
\<close>

theorem lookup_missing_op_raises:
  "args (get_request [(''search'', ''0xDEADBEEF'')]) ''op'' = None \<and>
   lookup (get_request [(''search'', ''0xDEADBEEF'')]) ctx = (Inl TypeError, [])"
  by code_simp

subsection \<open>C7: add when the import returns a result\<close>

text \<open>
  C7: when the key text can be encoded and the store's import returns a result, \<^verbatim>\<open>add\<close>
  answers 201 if one or more keys were imported and 200 if none was, in both cases with
  the body "Keys imported:", a newline, and the identifiers of the import list joined by
  newlines.
\<close>

theorem add_imported:
  assumes "form rq ''keytext'' = Some keytext"
    and "py_str keytext = Inr keydata"
    and "ctx_import ctx keydata = Inr (Some result)"
    and "body = ''Keys imported:'' @ [CHR 0x0A] @ join [CHR 0x0A] (map fst (import_list result))"
  shows "(1 \<le> imported result \<longrightarrow>
            add rq ctx = (Inr (make_response body 201), [Import keydata])) \<and>
         (imported result = 0 \<longrightarrow>
            add rq ctx = (Inr (make_response body 200), [Import keydata]))"
proof -
  have m: "map (\<lambda>(k, _, _). k) (import_list result) = map fst (import_list result)"
    by (rule map_cong) auto
  show ?thesis
    using assms by (simp add: add_def m)
qed

text \<open>
  C7, two instances: an import of two keys is answered 201 with both identifiers, an
  import of none is answered 200 with an empty list.
\<close>

theorem add_imported_witness:
  "add (post_request [(''keytext'', ''KEYS'')])
       (store_with [] [] (Some \<lparr>imported = 2, import_list = [(''AAAA1111'', 0, 1), (''BBBB2222'', 0, 1)]\<rparr>)) =
     (Inr (make_response (''Keys imported:'' @ [CHR 0x0A] @ ''AAAA1111'' @ [CHR 0x0A] @ ''BBBB2222'') 201),
      [Import ''KEYS''])
   \<and> add (post_request [(''keytext'', ''KEYS'')])
       (store_with [] [] (Some \<lparr>imported = 0, import_list = []\<rparr>)) =
     (Inr (make_response (''Keys imported:'' @ [CHR 0x0A]) 200), [Import ''KEYS''])"
proof -
  let ?rq = "post_request [(''keytext'', ''KEYS'')]"
  let ?r2 = "\<lparr>imported = 2, import_list = [(''AAAA1111'', 0, 1), (''BBBB2222'', 0, 1)]\<rparr>"
  let ?r0 = "\<lparr>imported = 0, import_list = []\<rparr>"
  have f: "form ?rq ''keytext'' = Some ''KEYS''" by code_simp
  have s: "py_str ''KEYS'' = Inr ''KEYS''" by code_simp
  have i2: "ctx_import (store_with [] [] (Some ?r2)) ''KEYS'' = Inr (Some ?r2)"
    by (simp add: store_with_def)
  have i0: "ctx_import (store_with [] [] (Some ?r0)) ''KEYS'' = Inr (Some ?r0)"
    by (simp add: store_with_def)
  from add_imported [OF f s i2 refl] add_imported [OF f s i0 refl]
  show ?thesis
    by simp
qed

subsection \<open>C8: index with a short search term\<close>

text \<open>
  C8: when \<^verbatim>\<open>search\<close> is present and its normalized form is shorter than four
  characters, \<^verbatim>\<open>index\<close> answers 500 "Search must be at least four characters" and makes
  no call to the store.
\<close>

theorem index_short_search:
  assumes "args rq ''search'' = Some raw"
    and "clean_search raw = Inr t"
    and "length t < 4"
  shows "index rq ctx =
           (Inr (make_response ''Search must be at least four characters'' 500), [])"
  using assms by (simp add: index_def)

text \<open>
  C8, an instance: \<^verbatim>\<open>search=ab\<close>.
\<close>

theorem index_short_search_witness:
  "clean_search ''ab'' = Inr ''AB'' \<and>
   index (get_request [(''op'', ''index''), (''search'', ''ab'')])
         (store_with [make_key [''abigail''] [''AB12CD34'']] [] None) =
     (Inr (make_response ''Search must be at least four characters'' 500), [])"
proof -
  let ?rq = "get_request [(''op'', ''index''), (''search'', ''ab'')]"
  have a: "args ?rq ''search'' = Some ''ab''" by code_simp
  have c: "clean_search ''ab'' = Inr ''AB''" by code_simp
  have l: "length ''AB'' < 4" by simp
  show ?thesis
    using c index_short_search [OF a c l] by simp
qed

subsection \<open>C9: matching keys without subkeys\<close>

text \<open>
  C9: a key without subkeys adds nothing to the collected fingerprints; and when every key
  of the store that matches the term (by a uid or by a fingerprint) has no subkeys,
  \<^verbatim>\<open>index\<close> answers 404 "No keys matching search request: term".
\<close>

theorem index_matching_keys_without_subkeys:
  assumes "args rq ''search'' = Some raw"
    and "clean_search raw = Inr t"
    and "\<not> length t < 4"
    and "ctx_keylist ctx = Inr ks"
    and "\<forall>k\<in>set ks. spec_key_matches t k \<longrightarrow> subkeys k = []"
  shows "(\<forall>k\<in>set ks. subkeys k = [] \<longrightarrow> (\<forall>matches. keylist_loop t [k] matches = matches)) \<and>
         index rq ctx =
           (Inr (make_response (''No keys matching search request: '' @ t) 404), [Keylist])"
proof -
  have "keylist_loop t ks [] = []"
    using assms(5) by (rule keylist_loop_nothing)
  then show ?thesis
    using index_found [OF assms(1-4)] by simp
qed

text \<open>
  C9, an instance: the only key matching \<^verbatim>\<open>alice\<close> matches by its uid and has no
  subkeys; the answer is 404.
\<close>

theorem index_matching_keys_without_subkeys_witness:
  "spec_key_matches ''ALICE'' (make_key [''Alice Example''] []) \<and>
   index (get_request [(''op'', ''index''), (''search'', ''alice'')])
         (store_with [make_key [''Alice Example''] [], make_key [''bob''] [''CCCC3333'']] [] None) =
     (Inr (make_response ''No keys matching search request: ALICE'' 404), [Keylist])"
proof -
  let ?ks = "[make_key [''Alice Example''] [], make_key [''bob''] [''CCCC3333'']]"
  let ?rq = "get_request [(''op'', ''index''), (''search'', ''alice'')]"
  have a: "args ?rq ''search'' = Some ''alice''" by code_simp
  have c: "clean_search ''alice'' = Inr ''ALICE''" by code_simp
  have l: "\<not> length ''ALICE'' < 4" by simp
  have k: "ctx_keylist (store_with ?ks [] None) = Inr ?ks" by (simp add: store_with_def)
  have m1: "spec_key_matches ''ALICE'' (make_key [''Alice Example''] [])" by code_simp
  have m2: "\<not> spec_key_matches ''ALICE'' (make_key [''bob''] [''CCCC3333''])" by code_simp
  have s1: "subkeys (make_key [''Alice Example''] []) = []" by code_simp
  have h: "\<forall>k\<in>set ?ks. spec_key_matches ''ALICE'' k \<longrightarrow> subkeys k = []"
    using m2 s1 by simp
  show ?thesis
    using m1 index_matching_keys_without_subkeys [OF a c l k h] by simp
qed

subsection \<open>C10: case in uid and fingerprint matching\<close>



end
